theory Spec2Isabelle
  imports Complex_Main
begin

section \<open>The SIR epidemic model: embedding of sir\_advanced.py and sir\_simulation.py\<close>

text \<open>
  Numbers are modelled as reals: the arithmetic of the model is exact, the rounding of
  the 64-bit floats of the Python code is not part of it. Day counts handed to
  \<open>np.arange\<close> are integers. An exception of the Python code is a value \<open>Inl e\<close> of
  a sum type, a normal return is \<open>Inr v\<close>.

  \<open>ZeroDivisionError\<close> stands for every division by zero: Python raises it on its
  own numbers; on numpy floats the division yields inf or nan (with a warning), which is
  no real number either.
\<close>

datatype error = ValueError | IndexError | ZeroDivisionError

type_synonym state = "real \<times> real \<times> real"

type_synonym series = "real list \<times> real list \<times> real list"

text \<open>The right-hand side of the differential system, as the solver calls it: \<open>func(y, t)\<close>.\<close>

type_synonym deriv = "state \<Rightarrow> real \<Rightarrow> error + state"

text \<open>
  \<open>scipy.integrate.odeint\<close> is a library routine outside the repository. The model takes
  it as a parameter: a function from the right-hand side, the initial state and the time
  grid to either an error or one row \<open>(S, I, R)\<close> per requested time.
\<close>

type_synonym solver = "deriv \<Rightarrow> state \<Rightarrow> real list \<Rightarrow> error + state list"

subsection \<open>sir\_advanced.py: the model functions\<close>

text \<open>\<open>sir_equations(y, t, N, beta, gamma)\<close>, lines 16 to 22.\<close>

definition sir_equations :: "state \<Rightarrow> real \<Rightarrow> real \<Rightarrow> real \<Rightarrow> real \<Rightarrow> error + state" where
  "sir_equations y t N beta gamma =
     (case y of (S, I, R) \<Rightarrow>
        if N = 0 then Inl ZeroDivisionError
        else
          (let dSdt = - beta * S * I / N;
               dIdt = beta * S * I / N - gamma * I;
               dRdt = gamma * I
           in Inr (dSdt, dIdt, dRdt)))"

text \<open>\<open>solution.T\<close>: the rows of the solution array become the three columns S, I, R.\<close>

definition solution_T :: "state list \<Rightarrow> series" where
  "solution_T solution =
     (map fst solution, map (\<lambda>row. fst (snd row)) solution, map (\<lambda>row. snd (snd row)) solution)"

text \<open>\<open>simuler_sir(N, beta, gamma, S0, I0, R0, temps)\<close>, lines 24 to 28.\<close>

definition simuler_sir ::
  "solver \<Rightarrow> real \<Rightarrow> real \<Rightarrow> real \<Rightarrow> real \<Rightarrow> real \<Rightarrow> real \<Rightarrow> real list \<Rightarrow> error + series" where
  "simuler_sir odeint N beta gamma S0 I0 R0 temps =
     (let y0 = (S0, I0, R0) in
      case odeint (\<lambda>y t. sir_equations y t N beta gamma) y0 temps of
        Inl e \<Rightarrow> Inl e
      | Inr solution \<Rightarrow> Inr (solution_T solution))"

subsection \<open>sir\_simulation.py: the class ModeleSIR\<close>

record ModeleSIR =
  self_N :: real
  self_beta :: real
  self_gamma :: real
  self_S0 :: real
  self_I0 :: real
  self_R0_init :: real
  self_R0 :: real

text \<open>\<open>ModeleSIR.__init__\<close>, lines 14 to 31; \<open>beta / gamma\<close> raises when gamma is 0.\<close>

definition ModeleSIR_init ::
  "real \<Rightarrow> real \<Rightarrow> real \<Rightarrow> real \<Rightarrow> real \<Rightarrow> real \<Rightarrow> error + ModeleSIR" where
  "ModeleSIR_init N beta gamma S0 I0 R0 =
     (if gamma = 0 then Inl ZeroDivisionError
      else Inr \<lparr> self_N = N, self_beta = beta, self_gamma = gamma, self_S0 = S0,
                 self_I0 = I0, self_R0_init = R0, self_R0 = beta / gamma \<rparr>)"

text \<open>\<open>ModeleSIR.equations_sir(self, y, t)\<close>, lines 33 to 39.\<close>

definition equations_sir :: "ModeleSIR \<Rightarrow> state \<Rightarrow> real \<Rightarrow> error + state" where
  "equations_sir self y t =
     (case y of (S, I, R) \<Rightarrow>
        if self_N self = 0 then Inl ZeroDivisionError
        else
          (let dSdt = - self_beta self * S * I / self_N self;
               dIdt = self_beta self * S * I / self_N self - self_gamma self * I;
               dRdt = self_gamma self * I
           in Inr (dSdt, dIdt, dRdt)))"

text \<open>\<open>ModeleSIR.simuler(self, temps)\<close>, lines 41 to 56.\<close>

definition simuler :: "solver \<Rightarrow> ModeleSIR \<Rightarrow> real list \<Rightarrow> error + series" where
  "simuler odeint self temps =
     (let y0 = (self_S0 self, self_I0 self, self_R0_init self) in
      case odeint (equations_sir self) y0 temps of
        Inl e \<Rightarrow> Inl e
      | Inr solution \<Rightarrow> (case solution_T solution of (S, I, R) \<Rightarrow> Inr (S, I, R)))"

subsection \<open>numpy and list operations used by the drivers\<close>

text \<open>\<open>np.arange(start, stop)\<close> on integers: \<open>start, start + 1, ..., stop - 1\<close>.\<close>

definition np_arange :: "int \<Rightarrow> int \<Rightarrow> real list" where
  "np_arange start stop = map real_of_int [start..stop - 1]"

text \<open>\<open>xs[-1]\<close> raises IndexError on an empty array.\<close>

definition py_last :: "'a list \<Rightarrow> error + 'a" where
  "py_last xs = (if xs = [] then Inl IndexError else Inr (last xs))"

text \<open>\<open>xs[k]\<close> for an index \<open>k \<ge> 0\<close>.\<close>

definition py_index :: "'a list \<Rightarrow> nat \<Rightarrow> error + 'a" where
  "py_index xs k = (if k < length xs then Inr (xs ! k) else Inl IndexError)"

text \<open>\<open>np.max\<close> raises ValueError on an empty array.\<close>

definition np_max :: "real list \<Rightarrow> error + real" where
  "np_max xs = (case xs of [] \<Rightarrow> Inl ValueError | x # rest \<Rightarrow> Inr (fold max rest x))"

text \<open>
  \<open>np.argmax\<close>: one scan from the left that keeps the best value seen and its index,
  and moves only to a strictly larger value, so the first maximal index is returned.
\<close>

fun argmax_scan :: "real list \<Rightarrow> nat \<Rightarrow> real \<Rightarrow> nat \<Rightarrow> nat" where
  "argmax_scan [] i best besti = besti"
| "argmax_scan (x # xs) i best besti =
     (if best < x then argmax_scan xs (Suc i) x i else argmax_scan xs (Suc i) best besti)"

definition np_argmax :: "real list \<Rightarrow> error + nat" where
  "np_argmax xs = (case xs of [] \<Rightarrow> Inl ValueError | x # rest \<Rightarrow> Inr (argmax_scan rest 1 x 0))"

text \<open>\<open>int(x)\<close> on a float truncates towards zero.\<close>

definition py_int :: "real \<Rightarrow> int" where
  "py_int x = (if 0 \<le> x then \<lfloor>x\<rfloor> else \<lceil>x\<rceil>)"

subsection \<open>sir\_simulation.py: the statistics\<close>

record statistiques =
  pic_infectes :: real
  jour_pic :: real
  total_infectes :: real
  pourcentage_infectes :: real

text \<open>
  \<open>ModeleSIR.afficher_statistiques(self, temps, S, I, R)\<close>, lines 105 to 110: the four
  values the method computes before it prints them.
\<close>

definition afficher_statistiques ::
  "ModeleSIR \<Rightarrow> real list \<Rightarrow> real list \<Rightarrow> real list \<Rightarrow> real list \<Rightarrow> error + statistiques" where
  "afficher_statistiques self temps S I R =
     (case np_max I of Inl e \<Rightarrow> Inl e | Inr pic \<Rightarrow>
     (case np_argmax I of Inl e \<Rightarrow> Inl e | Inr k \<Rightarrow>
     (case py_index temps k of Inl e \<Rightarrow> Inl e | Inr jour \<Rightarrow>
     (case py_last S of Inl e \<Rightarrow> Inl e | Inr S_last \<Rightarrow>
        (let total = self_N self - S_last in
         if self_N self = 0 then Inl ZeroDivisionError
         else Inr \<lparr> pic_infectes = pic, jour_pic = jour, total_infectes = total,
                    pourcentage_infectes = (total / self_N self) * 100 \<rparr>)))))"

subsection \<open>sir\_advanced.py: the intervention scenarios\<close>

text \<open>
  The body of the loop of \<open>scenarios_interventions\<close>, lines 99 to 113, for one scenario
  \<open>(beta, jour_intervention)\<close>; \<open>temps\<close> is the shared axis of line 86.
\<close>

definition scenario_series ::
  "solver \<Rightarrow> real \<Rightarrow> real \<Rightarrow> real \<Rightarrow> real \<Rightarrow> real \<Rightarrow> real \<Rightarrow> int \<Rightarrow> real \<Rightarrow> int \<Rightarrow> error + series" where
  "scenario_series odeint N gamma beta_base S0 I0 R0_init jours_total beta jour_intervention =
     (let temps = np_arange 0 (jours_total + 1) in
      if jour_intervention = 0 then simuler_sir odeint N beta gamma S0 I0 R0_init temps
      else
        (let temps1 = np_arange 0 (jour_intervention + 1) in
         case simuler_sir odeint N beta_base gamma S0 I0 R0_init temps1 of
           Inl e \<Rightarrow> Inl e
         | Inr (S1, I1, R1) \<Rightarrow>
             (let temps2 = np_arange jour_intervention (jours_total + 1) in
              (case py_last S1 of Inl e \<Rightarrow> Inl e | Inr S1_last \<Rightarrow>
              (case py_last I1 of Inl e \<Rightarrow> Inl e | Inr I1_last \<Rightarrow>
              (case py_last R1 of Inl e \<Rightarrow> Inl e | Inr R1_last \<Rightarrow>
              (case simuler_sir odeint N beta gamma S1_last I1_last R1_last temps2 of
                 Inl e \<Rightarrow> Inl e
               | Inr (S2, I2, R2) \<Rightarrow>
                   Inr (butlast S1 @ S2, butlast I1 @ I2, butlast R1 @ R2))))))))"

text \<open>
  The statistics of one scenario, lines 119 to 126: the local values \<open>pic\<close> and
  \<open>total_infectes\<close>, and the row of the table built from them (the percentage is kept
  as a number, its rendering with one decimal is left to the table).
\<close>

record resultat =
  res_pic :: real
  res_total_infectes :: real
  res_Pic_d_infectes :: int
  res_Total_infectes :: int
  res_Pourcentage :: real

definition scenario_statistiques :: "real \<Rightarrow> real list \<Rightarrow> real list \<Rightarrow> error + resultat" where
  "scenario_statistiques N S I =
     (case np_max I of Inl e \<Rightarrow> Inl e | Inr pic \<Rightarrow>
     (case py_last S of Inl e \<Rightarrow> Inl e | Inr S_last \<Rightarrow>
        (let total = N - S_last in
         if N = 0 then Inl ZeroDivisionError
         else Inr \<lparr> res_pic = pic, res_total_infectes = total,
                    res_Pic_d_infectes = py_int pic, res_Total_infectes = py_int total,
                    res_Pourcentage = total / N * 100 \<rparr>)))"

subsection \<open>What the model asks of odeint\<close>

text \<open>
  Two properties of the library routine, each a hypothesis of the theorems that need
  it. The first is the shape of its result as documented: one row per requested time,
  the first row being the initial state.
\<close>

definition odeint_shape :: "solver \<Rightarrow> bool" where
  "odeint_shape odeint \<longleftrightarrow>
     (\<forall>f y0 ts rows. odeint f y0 ts = Inr rows \<longrightarrow>
        length rows = length ts \<and> (ts \<noteq> [] \<longrightarrow> hd rows = y0))"

text \<open>
  The second: a non-empty grid that never decreases is accepted (repeated times are
  allowed), whenever the right-hand side has a value at every state.
\<close>

definition odeint_accepts :: "solver \<Rightarrow> bool" where
  "odeint_accepts odeint \<longleftrightarrow>
     (\<forall>f y0 ts. (\<forall>y t. \<exists>d. f y t = Inr d) \<and> ts \<noteq> [] \<and> sorted ts \<longrightarrow>
        (\<exists>rows. odeint f y0 ts = Inr rows))"

text \<open>
  A solver with the two properties, to run the model on concrete inputs: explicit
  Euler steps from one grid point to the next. Like the library routine it refuses a
  grid that is neither non-decreasing nor non-increasing.
\<close>

fun euler_steps :: "deriv \<Rightarrow> state \<Rightarrow> real \<Rightarrow> real list \<Rightarrow> error + state list" where
  "euler_steps f y t [] = Inr []"
| "euler_steps f y t (t' # ts) =
     (case f y t of
        Inl e \<Rightarrow> Inl e
      | Inr (dS, dI, dR) \<Rightarrow>
          (case y of (S, I, R) \<Rightarrow>
             (let h = t' - t; y' = (S + h * dS, I + h * dI, R + h * dR) in
              case euler_steps f y' t' ts of
                Inl e \<Rightarrow> Inl e
              | Inr rows \<Rightarrow> Inr (y' # rows))))"

definition euler_odeint :: solver where
  "euler_odeint f y0 ts =
     (case ts of
        [] \<Rightarrow> Inl ValueError
      | t0 # rest \<Rightarrow>
          if \<not> (sorted ts \<or> sorted (rev ts)) then Inl ValueError
          else (case euler_steps f y0 t0 rest of
                  Inl e \<Rightarrow> Inl e
                | Inr rows \<Rightarrow> Inr (y0 # rows)))"


section \<open>Supporting lemmas\<close>

subsection \<open>The Euler solver has the two properties\<close>

lemma euler_steps_length:
  "euler_steps f y t ts = Inr rows \<Longrightarrow> length rows = length ts"
proof (induction ts arbitrary: y t rows)
  case Nil
  then show ?case by simp
next
  case (Cons t' ts)
  then show ?case
    by (auto split: sum.splits prod.splits simp: Let_def)
qed

lemma euler_odeint_shape: "odeint_shape euler_odeint"
  unfolding odeint_shape_def euler_odeint_def
  by (auto split: list.splits sum.splits if_splits dest: euler_steps_length)

lemma euler_steps_total:
  assumes "\<forall>y t. \<exists>d. f y t = Inr d"
  shows "\<exists>rows. euler_steps f y t ts = Inr rows"
proof (induction ts arbitrary: y t)
  case Nil
  show ?case by simp
next
  case (Cons t' ts)
  from assms obtain d where "f y t = Inr d" by blast
  then obtain dS dI dR where d: "f y t = Inr (dS, dI, dR)" by (cases d) auto
  obtain S I R where y: "y = (S, I, R)" by (cases y) auto
  from Cons [of "(S + (t' - t) * dS, I + (t' - t) * dI, R + (t' - t) * dR)" t']
  show ?case using d by (auto simp: y Let_def)
qed

lemma euler_odeint_accepts: "odeint_accepts euler_odeint"
  unfolding odeint_accepts_def
proof (intro allI impI)
  fix f :: deriv and y0 :: state and ts :: "real list"
  assume a: "(\<forall>y t. \<exists>d. f y t = Inr d) \<and> ts \<noteq> [] \<and> sorted ts"
  then obtain t0 rest where ts: "ts = t0 # rest" by (cases ts) auto
  from a obtain rows where "euler_steps f y0 t0 rest = Inr rows"
    using euler_steps_total by blast
  with a ts show "\<exists>rows. euler_odeint f y0 ts = Inr rows"
    by (simp add: euler_odeint_def)
qed

subsection \<open>The simulation functions under the properties of odeint\<close>

lemma solution_T_length:
  "solution_T rows = (S, I, R) \<Longrightarrow>
     length S = length rows \<and> length I = length rows \<and> length R = length rows"
  by (auto simp: solution_T_def)

lemma solution_T_hd:
  "solution_T rows = (S, I, R) \<Longrightarrow> rows \<noteq> [] \<Longrightarrow> hd rows = (hd S, hd I, hd R)"
  by (cases rows) (auto simp: solution_T_def)

lemma sir_equations_total: "N \<noteq> 0 \<Longrightarrow> \<exists>d. sir_equations y t N beta gamma = Inr d"
  by (cases y) (simp add: sir_equations_def)

lemma equations_sir_total: "self_N m \<noteq> 0 \<Longrightarrow> \<exists>d. equations_sir m y t = Inr d"
  by (cases y) (simp add: equations_sir_def)

lemma simuler_sir_shape:
  assumes "odeint_shape odeint"
    and "simuler_sir odeint N beta gamma S0 I0 R0 temps = Inr (S, I, R)"
  shows "length S = length temps \<and> length I = length temps \<and> length R = length temps
       \<and> (temps \<noteq> [] \<longrightarrow> hd S = S0 \<and> hd I = I0 \<and> hd R = R0)"
proof -
  from assms(2) obtain rows where
    r: "odeint (\<lambda>y t. sir_equations y t N beta gamma) (S0, I0, R0) temps = Inr rows"
    and t: "solution_T rows = (S, I, R)"
    by (auto simp: simuler_sir_def split: sum.splits)
  from assms(1) r have l: "length rows = length temps" and h: "temps \<noteq> [] \<longrightarrow> hd rows = (S0, I0, R0)"
    unfolding odeint_shape_def by blast+
  from solution_T_length [OF t] l have len:
    "length S = length temps \<and> length I = length temps \<and> length R = length temps" by simp
  have "hd S = S0 \<and> hd I = I0 \<and> hd R = R0" if ne: "temps \<noteq> []"
  proof -
    from ne l have "rows \<noteq> []" by auto
    from solution_T_hd [OF t this] h ne show ?thesis by simp
  qed
  with len show ?thesis by blast
qed

lemma simuler_shape:
  assumes "odeint_shape odeint"
    and "simuler odeint m temps = Inr (S, I, R)"
  shows "length S = length temps \<and> length I = length temps \<and> length R = length temps"
proof -
  from assms(2) obtain rows where
    r: "odeint (equations_sir m) (self_S0 m, self_I0 m, self_R0_init m) temps = Inr rows"
    and t: "solution_T rows = (S, I, R)"
    by (auto simp: simuler_def split: sum.splits prod.splits)
  from assms(1) r have "length rows = length temps"
    unfolding odeint_shape_def by blast
  with solution_T_length [OF t] show ?thesis by simp
qed

lemma simuler_sir_returns:
  assumes "odeint_accepts odeint" and "N \<noteq> 0" and "temps \<noteq> []" and "sorted temps"
  shows "\<exists>S I R. simuler_sir odeint N beta gamma S0 I0 R0 temps = Inr (S, I, R)"
proof -
  have "\<forall>y t. \<exists>d. sir_equations y t N beta gamma = Inr d"
    using sir_equations_total [OF assms(2)] by blast
  with assms(1,3,4) have
    "\<exists>rows. odeint (\<lambda>y t. sir_equations y t N beta gamma) (S0, I0, R0) temps = Inr rows"
    unfolding odeint_accepts_def by simp
  then obtain rows where
    "odeint (\<lambda>y t. sir_equations y t N beta gamma) (S0, I0, R0) temps = Inr rows" ..
  then show ?thesis
    by (simp add: simuler_sir_def solution_T_def)
qed

lemma simuler_returns:
  assumes "odeint_accepts odeint" and "self_N m \<noteq> 0" and "temps \<noteq> []" and "sorted temps"
  shows "\<exists>S I R. simuler odeint m temps = Inr (S, I, R)"
proof -
  have "\<forall>y t. \<exists>d. equations_sir m y t = Inr d"
    using equations_sir_total [OF assms(2)] by blast
  with assms(1,3,4) have
    "\<exists>rows. odeint (equations_sir m) (self_S0 m, self_I0 m, self_R0_init m) temps = Inr rows"
    unfolding odeint_accepts_def by simp
  then obtain rows where
    "odeint (equations_sir m) (self_S0 m, self_I0 m, self_R0_init m) temps = Inr rows" ..
  then show ?thesis
    by (simp add: simuler_def solution_T_def)
qed

lemma length_np_arange: "length (np_arange a b) = nat (b - a)"
  by (simp add: np_arange_def)

lemma np_arange_empty_iff: "np_arange a b = [] \<longleftrightarrow> b \<le> a"
  by (auto simp: np_arange_def)

lemma np_arange_strict: "sorted_wrt (<) (np_arange a b)"
  by (simp add: np_arange_def sorted_wrt_map)

lemma np_arange_sorted: "sorted (np_arange a b)"
  using np_arange_strict [of a b] by (simp add: strict_sorted_iff)

lemma np_arange_distinct: "distinct (np_arange a b)"
  using np_arange_strict [of a b] by (simp add: strict_sorted_iff)

lemma np_arange_join:
  assumes "0 \<le> d" and "d \<le> T"
  shows "butlast (np_arange 0 (d + 1)) @ np_arange d (T + 1) = np_arange 0 (T + 1)"
proof -
  have "[0..d] = [0..d - 1] @ [d]"
    using assms(1) by (simp add: upto_rec2)
  then have "butlast [0..d] = [0..d - 1]" by simp
  moreover have "[0..T] = [0..d - 1] @ [d..T]"
    using assms upto_split1 [of 0 d T] by simp
  ultimately show ?thesis
    by (simp add: np_arange_def map_butlast [symmetric])
qed

lemma np_arange_once:
  assumes "a \<le> d" and "d < b"
  shows "length (filter (\<lambda>t. t = real_of_int d) (np_arange a b)) = 1"
proof -
  have "{t. t = real_of_int d} \<inter> set (np_arange a b) = {real_of_int d}"
    using assms by (auto simp: np_arange_def)
  then show ?thesis
    by (simp add: distinct_length_filter [OF np_arange_distinct])
qed

subsection \<open>The two branches of a scenario\<close>

lemma scenario_series_single:
  "scenario_series odeint N gamma beta_base S0 I0 R0_init jours_total beta 0 =
     simuler_sir odeint N beta gamma S0 I0 R0_init (np_arange 0 (jours_total + 1))"
  by (simp add: scenario_series_def)

lemma scenario_series_two:
  assumes "jour_intervention \<noteq> 0"
    and "scenario_series odeint N gamma beta_base S0 I0 R0_init jours_total beta jour_intervention
           = Inr (S, I, R)"
  shows "\<exists>S1 I1 R1 S2 I2 R2.
           simuler_sir odeint N beta_base gamma S0 I0 R0_init (np_arange 0 (jour_intervention + 1))
             = Inr (S1, I1, R1)
         \<and> S1 \<noteq> [] \<and> I1 \<noteq> [] \<and> R1 \<noteq> []
         \<and> simuler_sir odeint N beta gamma (last S1) (last I1) (last R1)
               (np_arange jour_intervention (jours_total + 1)) = Inr (S2, I2, R2)
         \<and> S = butlast S1 @ S2 \<and> I = butlast I1 @ I2 \<and> R = butlast R1 @ R2"
  using assms
  by (auto simp: scenario_series_def py_last_def Let_def split: sum.splits prod.splits if_splits)

lemma scenario_series_two_returns:
  assumes "jour_intervention \<noteq> 0"
    and "simuler_sir odeint N beta_base gamma S0 I0 R0_init (np_arange 0 (jour_intervention + 1))
             = Inr (S1, I1, R1)"
    and "S1 \<noteq> []" "I1 \<noteq> []" "R1 \<noteq> []"
    and "simuler_sir odeint N beta gamma (last S1) (last I1) (last R1)
               (np_arange jour_intervention (jours_total + 1)) = Inr (S2, I2, R2)"
  shows "scenario_series odeint N gamma beta_base S0 I0 R0_init jours_total beta jour_intervention
           = Inr (butlast S1 @ S2, butlast I1 @ I2, butlast R1 @ R2)"
  using assms
  by (simp add: scenario_series_def py_last_def Let_def)

lemma scenario_series_returns:
  assumes "odeint_shape odeint" and "odeint_accepts odeint" and "N \<noteq> 0"
    and "(jour_intervention = 0 \<and> 0 \<le> jours_total)
         \<or> (0 < jour_intervention \<and> jour_intervention \<le> jours_total)"
  shows "\<exists>S I R.
          scenario_series odeint N gamma beta_base S0 I0 R0_init jours_total beta jour_intervention
            = Inr (S, I, R)"
proof (cases "jour_intervention = 0")
  case True
  with assms(4) have "np_arange 0 (jours_total + 1) \<noteq> []"
    by (simp add: np_arange_empty_iff)
  from simuler_sir_returns [OF assms(2,3) this np_arange_sorted]
  show ?thesis
    by (simp add: True scenario_series_single)
next
  case False
  with assms(4) have d: "0 < jour_intervention" "jour_intervention \<le> jours_total" by auto
  then have ne1: "np_arange 0 (jour_intervention + 1) \<noteq> []"
    and ne2: "np_arange jour_intervention (jours_total + 1) \<noteq> []"
    by (simp_all add: np_arange_empty_iff)
  from simuler_sir_returns [OF assms(2,3) ne1 np_arange_sorted] obtain S1 I1 R1 where
    s1: "simuler_sir odeint N beta_base gamma S0 I0 R0_init (np_arange 0 (jour_intervention + 1))
           = Inr (S1, I1, R1)"
    by blast
  from simuler_sir_shape [OF assms(1) s1] ne1 have n1: "S1 \<noteq> []" "I1 \<noteq> []" "R1 \<noteq> []"
    by auto
  from simuler_sir_returns [OF assms(2,3) ne2 np_arange_sorted] obtain S2 I2 R2 where
    s2: "simuler_sir odeint N beta gamma (last S1) (last I1) (last R1)
             (np_arange jour_intervention (jours_total + 1)) = Inr (S2, I2, R2)"
    by blast
  from scenario_series_two_returns [OF False s1 n1 s2] show ?thesis by blast
qed

lemma nth_butlast_append_last:
  assumes "xs \<noteq> []" and "ys \<noteq> []" and "hd ys = last xs"
  shows "(butlast xs @ ys) ! (length xs - 1) = last xs"
  using assms by (cases ys) (simp_all add: nth_append)

subsection \<open>Maximum and first index of the maximum\<close>

lemma np_max_Max: "xs \<noteq> [] \<Longrightarrow> np_max xs = Inr (Max (set xs))"
proof (cases xs)
  case Nil
  assume "xs \<noteq> []"
  with Nil show ?thesis by simp
next
  case (Cons x rest)
  have "Max (set (x # rest)) = fold max rest x"
    by (rule Max.set_eq_fold)
  with Cons show ?thesis
    by (simp add: np_max_def)
qed

lemma argmax_scan_first:
  assumes "length pre = i" and "besti < i" and "pre ! besti = best"
    and "\<forall>j<i. pre ! j \<le> best" and "\<forall>j<besti. pre ! j < best"
  shows "argmax_scan xs i best besti < length (pre @ xs)
       \<and> (\<forall>j<length (pre @ xs). (pre @ xs) ! j \<le> (pre @ xs) ! argmax_scan xs i best besti)
       \<and> (\<forall>j<argmax_scan xs i best besti. (pre @ xs) ! j < (pre @ xs) ! argmax_scan xs i best besti)"
  using assms
proof (induction xs arbitrary: pre i best besti)
  case Nil
  then show ?case by simp
next
  case (Cons x xs)
  let ?pre = "pre @ [x]"
  show ?case
  proof (cases "best < x")
    case True
    have "argmax_scan xs (Suc i) x i < length (?pre @ xs)
       \<and> (\<forall>j<length (?pre @ xs). (?pre @ xs) ! j \<le> (?pre @ xs) ! argmax_scan xs (Suc i) x i)
       \<and> (\<forall>j<argmax_scan xs (Suc i) x i. (?pre @ xs) ! j < (?pre @ xs) ! argmax_scan xs (Suc i) x i)"
    proof (rule Cons.IH)
      show "length ?pre = Suc i" using Cons.prems(1) by simp
      show "i < Suc i" by simp
      show "?pre ! i = x" using Cons.prems(1) by (simp add: nth_append)
      show "\<forall>j<Suc i. ?pre ! j \<le> x"
        using Cons.prems(1,4) True by (auto simp: nth_append less_Suc_eq)
      show "\<forall>j<i. ?pre ! j < x"
        using Cons.prems(1,4) True by (auto simp: nth_append intro: le_less_trans)
    qed
    with True show ?thesis by simp
  next
    case False
    have "argmax_scan xs (Suc i) best besti < length (?pre @ xs)
       \<and> (\<forall>j<length (?pre @ xs). (?pre @ xs) ! j \<le> (?pre @ xs) ! argmax_scan xs (Suc i) best besti)
       \<and> (\<forall>j<argmax_scan xs (Suc i) best besti.
             (?pre @ xs) ! j < (?pre @ xs) ! argmax_scan xs (Suc i) best besti)"
    proof (rule Cons.IH)
      show "length ?pre = Suc i" using Cons.prems(1) by simp
      show "besti < Suc i" using Cons.prems(2) by simp
      show "?pre ! besti = best" using Cons.prems(1,2,3) by (simp add: nth_append)
      show "\<forall>j<Suc i. ?pre ! j \<le> best"
        using Cons.prems(1,4) False by (auto simp: nth_append less_Suc_eq)
      show "\<forall>j<besti. ?pre ! j < best"
        using Cons.prems(1,2,5) by (auto simp: nth_append)
    qed
    with False show ?thesis by simp
  qed
qed

lemma np_argmax_first:
  assumes "xs \<noteq> []"
  shows "\<exists>k. np_argmax xs = Inr k \<and> k < length xs \<and> xs ! k = Max (set xs)
             \<and> (\<forall>j<k. xs ! j < Max (set xs))"
proof -
  from assms obtain x rest where xs: "xs = x # rest" by (cases xs) auto
  let ?k = "argmax_scan rest 1 x 0"
  have s: "?k < length ([x] @ rest)
         \<and> (\<forall>j<length ([x] @ rest). ([x] @ rest) ! j \<le> ([x] @ rest) ! ?k)
         \<and> (\<forall>j<?k. ([x] @ rest) ! j < ([x] @ rest) ! ?k)"
    by (rule argmax_scan_first) simp_all
  then have k: "?k < length xs" and ub: "\<forall>j<length xs. xs ! j \<le> xs ! ?k"
    and first: "\<forall>j<?k. xs ! j < xs ! ?k"
    by (simp_all add: xs)
  have "Max (set xs) = xs ! ?k"
  proof (rule Max_eqI)
    show "finite (set xs)" by simp
    show "xs ! ?k \<in> set xs" using k by simp
    fix y assume "y \<in> set xs"
    then obtain j where "j < length xs" "xs ! j = y" by (auto simp: in_set_conv_nth)
    with ub show "y \<le> xs ! ?k" by auto
  qed
  with k first show ?thesis
    by (simp add: np_argmax_def xs)
qed

subsection \<open>Boundary grids and the sign of the parameters\<close>

lemma np_arange_single: "np_arange T (T + 1) = [real_of_int T]"
  by (simp add: np_arange_def)

lemma singleton_hd: "length xs = 1 \<Longrightarrow> xs = [hd xs]"
  by (cases xs) simp_all

lemma sir_equations_sign: "sir_equations y t (- N) (- beta) gamma = sir_equations y t N beta gamma"
  by (cases y) (simp add: sir_equations_def)

lemma equations_sir_sign:
  "equations_sir (m \<lparr> self_N := - self_N m, self_beta := - self_beta m \<rparr>) y t = equations_sir m y t"
  by (cases y) (simp add: equations_sir_def)

section \<open>Properties\<close>

text \<open>
  C1. For every state \<open>(S, I, R)\<close> and parameters N, beta, gamma, the derivative function
  handed to the integrator returns exactly
  \<open>(- beta * S * I / N, beta * S * I / N - gamma * I, gamma * I)\<close>. This holds for
  \<open>sir_equations\<close> and for the method \<open>equations_sir\<close> of a model holding the same
  parameters; the quotient by N is defined when N is not 0.
\<close>

theorem sir_equations_formula:
  assumes "N \<noteq> 0"
  shows "sir_equations (S, I, R) t N beta gamma =
           Inr (- beta * S * I / N, beta * S * I / N - gamma * I, gamma * I)
       \<and> (self_N m = N \<and> self_beta m = beta \<and> self_gamma m = gamma \<longrightarrow>
            equations_sir m (S, I, R) t =
              Inr (- beta * S * I / N, beta * S * I / N - gamma * I, gamma * I))"
  using assms by (simp add: sir_equations_def equations_sir_def)

theorem sir_equations_formula_witness:
  "(10000::real) \<noteq> 0
   \<and> sir_equations (9990, 10, 0) 0 10000 (1/2) (1/10) = Inr (- (999/200), 799/200, 1)
   \<and> equations_sir \<lparr> self_N = 10000, self_beta = 1/2, self_gamma = 1/10, self_S0 = 9990,
                      self_I0 = 10, self_R0_init = 0, self_R0 = 5 \<rparr> (9990, 10, 0) 0
       = Inr (- (999/200), 799/200, 1)"
  using sir_equations_formula [where N = 10000 and S = 9990 and I = 10 and R = 0 and t = 0
      and beta = "1/2" and gamma = "1/10"
      and m = "\<lparr> self_N = 10000, self_beta = 1/2, self_gamma = 1/10, self_S0 = 9990,
                 self_I0 = 10, self_R0_init = 0, self_R0 = 5 \<rparr>"]
  by simp

text \<open>
  C3. In a run of two segments with the change-point d strictly between 0 and the
  horizon, segment 2 is started from the last sampled state \<open>(S1[-1], I1[-1], R1[-1])\<close>
  of segment 1 and its first sample is that state; the output is segment 1 without its
  last sample followed by segment 2, so the sample at index d is the state carried over;
  the time grids joined the same way give the days 0 to the horizon, where day d occurs
  once and the times increase strictly.
\<close>

theorem scenario_series_join:
  assumes "odeint_shape odeint"
    and "0 < jour_intervention" and "jour_intervention < jours_total"
  shows "(scenario_series odeint N gamma beta_base S0 I0 R0_init jours_total beta jour_intervention
            = Inr (S, I, R) \<longrightarrow>
          (\<exists>S1 I1 R1 S2 I2 R2.
            simuler_sir odeint N beta_base gamma S0 I0 R0_init (np_arange 0 (jour_intervention + 1))
              = Inr (S1, I1, R1)
          \<and> simuler_sir odeint N beta gamma (last S1) (last I1) (last R1)
                (np_arange jour_intervention (jours_total + 1)) = Inr (S2, I2, R2)
          \<and> hd S2 = last S1 \<and> hd I2 = last I1 \<and> hd R2 = last R1
          \<and> S = butlast S1 @ S2 \<and> I = butlast I1 @ I2 \<and> R = butlast R1 @ R2
          \<and> S ! nat jour_intervention = last S1 \<and> I ! nat jour_intervention = last I1
          \<and> R ! nat jour_intervention = last R1
          \<and> butlast (np_arange 0 (jour_intervention + 1)) @ np_arange jour_intervention (jours_total + 1)
              = np_arange 0 (jours_total + 1)
          \<and> length (filter (\<lambda>t. t = real_of_int jour_intervention) (np_arange 0 (jours_total + 1))) = 1
          \<and> sorted_wrt (<) (np_arange 0 (jours_total + 1))))
       \<and> (odeint_accepts odeint \<and> N \<noteq> 0 \<longrightarrow>
            (\<exists>S' I' R'.
               scenario_series odeint N gamma beta_base S0 I0 R0_init jours_total beta jour_intervention
                 = Inr (S', I', R')))"
proof (intro conjI impI)
  assume run: "scenario_series odeint N gamma beta_base S0 I0 R0_init jours_total beta jour_intervention
            = Inr (S, I, R)"
  from assms(2) have nz: "jour_intervention \<noteq> 0" by simp
  from scenario_series_two [OF nz run] obtain S1 I1 R1 S2 I2 R2 where
    s1: "simuler_sir odeint N beta_base gamma S0 I0 R0_init (np_arange 0 (jour_intervention + 1))
           = Inr (S1, I1, R1)"
    and n1: "S1 \<noteq> []" "I1 \<noteq> []" "R1 \<noteq> []"
    and s2: "simuler_sir odeint N beta gamma (last S1) (last I1) (last R1)
             (np_arange jour_intervention (jours_total + 1)) = Inr (S2, I2, R2)"
    and c: "S = butlast S1 @ S2" "I = butlast I1 @ I2" "R = butlast R1 @ R2"
    by blast
  from assms(3) have ne2: "np_arange jour_intervention (jours_total + 1) \<noteq> []"
    by (simp add: np_arange_empty_iff)
  from simuler_sir_shape [OF assms(1) s1] assms(2) have l1:
    "length S1 - 1 = nat jour_intervention" "length I1 - 1 = nat jour_intervention"
    "length R1 - 1 = nat jour_intervention"
    by (simp_all add: length_np_arange nat_add_distrib)
  from simuler_sir_shape [OF assms(1) s2] ne2 have
    h2: "hd S2 = last S1" "hd I2 = last I1" "hd R2 = last R1"
    and n2: "S2 \<noteq> []" "I2 \<noteq> []" "R2 \<noteq> []"
    by auto
  have at: "S ! nat jour_intervention = last S1" "I ! nat jour_intervention = last I1"
    "R ! nat jour_intervention = last R1"
    using nth_butlast_append_last [OF n1(1) n2(1) h2(1)]
      nth_butlast_append_last [OF n1(2) n2(2) h2(2)]
      nth_butlast_append_last [OF n1(3) n2(3) h2(3)] c l1
    by simp_all
  have j: "butlast (np_arange 0 (jour_intervention + 1)) @ np_arange jour_intervention (jours_total + 1)
             = np_arange 0 (jours_total + 1)"
    using np_arange_join [of jour_intervention jours_total] assms(2,3) by simp
  have o: "length (filter (\<lambda>t. t = real_of_int jour_intervention) (np_arange 0 (jours_total + 1))) = 1"
    using np_arange_once [of 0 jour_intervention "jours_total + 1"] assms(2,3) by simp
  from s1 s2 h2 c at j o np_arange_strict [of 0 "jours_total + 1"]
  show "\<exists>S1 I1 R1 S2 I2 R2.
           simuler_sir odeint N beta_base gamma S0 I0 R0_init (np_arange 0 (jour_intervention + 1))
             = Inr (S1, I1, R1)
         \<and> simuler_sir odeint N beta gamma (last S1) (last I1) (last R1)
               (np_arange jour_intervention (jours_total + 1)) = Inr (S2, I2, R2)
         \<and> hd S2 = last S1 \<and> hd I2 = last I1 \<and> hd R2 = last R1
         \<and> S = butlast S1 @ S2 \<and> I = butlast I1 @ I2 \<and> R = butlast R1 @ R2
         \<and> S ! nat jour_intervention = last S1 \<and> I ! nat jour_intervention = last I1
         \<and> R ! nat jour_intervention = last R1
         \<and> butlast (np_arange 0 (jour_intervention + 1)) @ np_arange jour_intervention (jours_total + 1)
             = np_arange 0 (jours_total + 1)
         \<and> length (filter (\<lambda>t. t = real_of_int jour_intervention) (np_arange 0 (jours_total + 1))) = 1
         \<and> sorted_wrt (<) (np_arange 0 (jours_total + 1))"
    by blast
next
  assume "odeint_accepts odeint \<and> N \<noteq> 0"
  with assms(2,3) show "\<exists>S' I' R'.
          scenario_series odeint N gamma beta_base S0 I0 R0_init jours_total beta jour_intervention
            = Inr (S', I', R')"
    using scenario_series_returns [OF assms(1), of N jour_intervention jours_total] by auto
qed

theorem scenario_series_join_witness:
  "odeint_shape euler_odeint \<and> odeint_accepts euler_odeint
   \<and> (0::int) < 1 \<and> (1::int) < 2 \<and> (10000::real) \<noteq> 0
   \<and> scenario_series euler_odeint 10000 (1/10) (1/2) 9990 10 0 2 (1/5) 1
       = Inr ([9990, 1997001 / 200, 19964420394201 / 2000000000],
              [10, 2799 / 200, 30780605799 / 2000000000], [0, 1, 4799 / 2000])
   \<and> (\<exists>S1 I1 R1 S2 I2 R2.
           simuler_sir euler_odeint 10000 (1/2) (1/10) 9990 10 0 (np_arange 0 (1 + 1))
             = Inr (S1, I1, R1)
         \<and> simuler_sir euler_odeint 10000 (1/5) (1/10) (last S1) (last I1) (last R1)
               (np_arange 1 (2 + 1)) = Inr (S2, I2, R2)
         \<and> hd S2 = last S1 \<and> hd I2 = last I1 \<and> hd R2 = last R1
         \<and> [9990, 1997001 / 200, 19964420394201 / 2000000000] = butlast S1 @ S2
         \<and> [10, 2799 / 200, 30780605799 / 2000000000] = butlast I1 @ I2
         \<and> [0, 1, 4799 / 2000] = butlast R1 @ R2
         \<and> [9990, 1997001 / 200, 19964420394201 / 2000000000] ! nat 1 = last S1
         \<and> [10, 2799 / 200, 30780605799 / 2000000000] ! nat 1 = last I1
         \<and> [0, 1, 4799 / 2000] ! nat 1 = last R1
         \<and> butlast (np_arange 0 (1 + 1)) @ np_arange 1 (2 + 1) = np_arange 0 (2 + 1)
         \<and> length (filter (\<lambda>t. t = real_of_int 1) (np_arange 0 (2 + 1))) = 1
         \<and> sorted_wrt (<) (np_arange 0 (2 + 1)))"
proof -
  have r: "scenario_series euler_odeint 10000 (1/10) (1/2) 9990 10 0 2 (1/5) 1
       = Inr ([9990, 1997001 / 200, 19964420394201 / 2000000000],
              [10, 2799 / 200, 30780605799 / 2000000000], [0, 1, 4799 / 2000])"
    by (simp add: scenario_series_def simuler_sir_def euler_odeint_def sir_equations_def
        solution_T_def np_arange_def upto_rec1 py_last_def)
  have a: "(0::int) < 1" and b: "(1::int) < 2" by simp_all
  from scenario_series_join [OF euler_odeint_shape a b, where N = 10000 and gamma = "1/10"
      and beta_base = "1/2" and ?S0.0 = 9990 and ?I0.0 = 10 and R0_init = 0 and beta = "1/5"
      and S = "[9990, 1997001 / 200, 19964420394201 / 2000000000]"
      and I = "[10, 2799 / 200, 30780605799 / 2000000000]" and R = "[0, 1, 4799 / 2000]"]
    r euler_odeint_shape euler_odeint_accepts
  show ?thesis by simp
qed

text \<open>
  C4. The statistics are reductions over a returned series (non-empty, with one time per
  sample), computed without the solver: the peak is the maximum of I; the day of the peak
  is the time at the first index where I attains that maximum; the final attack count is
  N minus the last sample of S; the final attack fraction is that count divided by N,
  which the code reports in percent (the fraction times 100). \<open>afficher_statistiques\<close> computes the four, the
  scenario table the peak, the count and the percentage, with the peak and the count
  truncated to integers in the table row.
\<close>

theorem statistiques_reductions:
  assumes "I \<noteq> []" and "length temps = length I" and "S \<noteq> []"
    and "self_N m \<noteq> 0" and "N \<noteq> 0"
  shows "(\<exists>st. afficher_statistiques m temps S I R = Inr st
            \<and> pic_infectes st = Max (set I)
            \<and> (\<exists>k<length I. jour_pic st = temps ! k \<and> I ! k = Max (set I)
                   \<and> (\<forall>j<k. I ! j < Max (set I)))
            \<and> total_infectes st = self_N m - last S
            \<and> pourcentage_infectes st = (total_infectes st / self_N m) * 100
            \<and> pourcentage_infectes st / 100 = total_infectes st / self_N m)
       \<and> (\<exists>res. scenario_statistiques N S I = Inr res
            \<and> res_pic res = Max (set I)
            \<and> res_total_infectes res = N - last S
            \<and> res_Pourcentage res = (res_total_infectes res / N) * 100
            \<and> res_Pourcentage res / 100 = res_total_infectes res / N
            \<and> res_Pic_d_infectes res = py_int (Max (set I))
            \<and> res_Total_infectes res = py_int (N - last S))"
proof -
  from np_argmax_first [OF assms(1)] obtain k where
    k: "np_argmax I = Inr k" "k < length I" "I ! k = Max (set I)" "\<forall>j<k. I ! j < Max (set I)"
    by blast
  have mx: "np_max I = Inr (Max (set I))"
    by (rule np_max_Max [OF assms(1)])
  have ix: "py_index temps k = Inr (temps ! k)"
    using k(2) assms(2) by (simp add: py_index_def)
  have la: "py_last S = Inr (last S)"
    using assms(3) by (simp add: py_last_def)
  have a: "afficher_statistiques m temps S I R =
             Inr \<lparr> pic_infectes = Max (set I), jour_pic = temps ! k,
                   total_infectes = self_N m - last S,
                   pourcentage_infectes = ((self_N m - last S) / self_N m) * 100 \<rparr>"
    using assms(4) by (simp add: afficher_statistiques_def mx k(1) ix la Let_def)
  have b: "scenario_statistiques N S I =
             Inr \<lparr> res_pic = Max (set I), res_total_infectes = N - last S,
                   res_Pic_d_infectes = py_int (Max (set I)),
                   res_Total_infectes = py_int (N - last S),
                   res_Pourcentage = (N - last S) / N * 100 \<rparr>"
    using assms(5) by (simp add: scenario_statistiques_def mx la Let_def)
  from a k(2,3,4) have "\<exists>st. afficher_statistiques m temps S I R = Inr st
            \<and> pic_infectes st = Max (set I)
            \<and> (\<exists>k<length I. jour_pic st = temps ! k \<and> I ! k = Max (set I)
                   \<and> (\<forall>j<k. I ! j < Max (set I)))
            \<and> total_infectes st = self_N m - last S
            \<and> pourcentage_infectes st = (total_infectes st / self_N m) * 100
            \<and> pourcentage_infectes st / 100 = total_infectes st / self_N m"
    by auto
  moreover from b have "\<exists>res. scenario_statistiques N S I = Inr res
            \<and> res_pic res = Max (set I)
            \<and> res_total_infectes res = N - last S
            \<and> res_Pourcentage res = (res_total_infectes res / N) * 100
            \<and> res_Pourcentage res / 100 = res_total_infectes res / N
            \<and> res_Pic_d_infectes res = py_int (Max (set I))
            \<and> res_Total_infectes res = py_int (N - last S)"
    by simp
  ultimately show ?thesis by blast
qed

theorem statistiques_reductions_witness:
  "[10, 700, 700, 300 :: real] \<noteq> []
   \<and> length [0, 1, 2, 3 :: real] = length [10, 700, 700, 300 :: real]
   \<and> [9990, 9000, 8000, 7500 :: real] \<noteq> [] \<and> (10000 :: real) \<noteq> 0
   \<and> afficher_statistiques
         \<lparr> self_N = 10000, self_beta = 1/2, self_gamma = 1/10, self_S0 = 9990,
           self_I0 = 10, self_R0_init = 0, self_R0 = 5 \<rparr>
         [0, 1, 2, 3] [9990, 9000, 8000, 7500] [10, 700, 700, 300] [0, 300, 1300, 2200]
       = Inr \<lparr> pic_infectes = 700, jour_pic = 1, total_infectes = 2500,
               pourcentage_infectes = 25 \<rparr>
   \<and> Max (set [10, 700, 700, 300 :: real]) = 700
   \<and> scenario_statistiques 10000 [9990, 9000, 8000, 7500] [10, 700, 700, 300]
       = Inr \<lparr> res_pic = 700, res_total_infectes = 2500, res_Pic_d_infectes = 700,
               res_Total_infectes = 2500, res_Pourcentage = 25 \<rparr>"
proof -
  let ?m = "\<lparr> self_N = 10000, self_beta = 1/2, self_gamma = 1/10, self_S0 = 9990,
              self_I0 = 10, self_R0_init = 0, self_R0 = 5 \<rparr>"
  have h: "[10, 700, 700, 300 :: real] \<noteq> []"
    "length [0, 1, 2, 3 :: real] = length [10, 700, 700, 300 :: real]"
    "[9990, 9000, 8000, 7500 :: real] \<noteq> []" "self_N ?m \<noteq> 0" "(10000 :: real) \<noteq> 0"
    by simp_all
  have a: "afficher_statistiques ?m
         [0, 1, 2, 3] [9990, 9000, 8000, 7500] [10, 700, 700, 300] [0, 300, 1300, 2200]
       = Inr \<lparr> pic_infectes = 700, jour_pic = 1, total_infectes = 2500,
               pourcentage_infectes = 25 \<rparr>"
    by (simp add: afficher_statistiques_def np_max_def np_argmax_def py_index_def py_last_def)
  have b: "scenario_statistiques 10000 [9990, 9000, 8000, 7500] [10, 700, 700, 300]
       = Inr \<lparr> res_pic = 700, res_total_infectes = 2500, res_Pic_d_infectes = 700,
               res_Total_infectes = 2500, res_Pourcentage = 25 \<rparr>"
    by (simp add: scenario_statistiques_def np_max_def py_last_def py_int_def)
  from statistiques_reductions [OF h, of "[0, 300, 1300, 2200]"] a
  have "Max (set [10, 700, 700, 300 :: real]) = 700" by auto
  with a b show ?thesis by simp
qed

text \<open>
  C5, as stated: a change-point day equal to 0 or to the horizon is rejected. The code
  rejects neither. With a horizon of 2 days, day 0 gives the single run with the
  scenario's beta and day 2 gives the run with the base beta (the numbers are those of
  the Euler solver).
\<close>

theorem change_point_boundary_counterexample:
  "scenario_series euler_odeint 10000 (1/10) (1/2) 9990 10 0 2 (1/5) 0
     = Inr ([9990, 4994001 / 500, 124822562988501 / 12500000000],
            [10, 5499 / 500, 151189511499 / 12500000000], [0, 1, 10499 / 5000])
   \<and> scenario_series euler_odeint 10000 (1/10) (1/2) 9990 10 0 2 (1/5) 2
     = Inr ([9990, 1997001 / 200, 7982414394201 / 800000000],
            [10, 2799 / 200, 15666005799 / 800000000], [0, 1, 4799 / 2000])"
  by (simp add: scenario_series_def simuler_sir_def euler_odeint_def sir_equations_def
        solution_T_def np_arange_def upto_rec1 py_last_def)

text \<open>
  C5, amended. Day 0 is how a scenario says "no intervention": the result is the
  single-segment run with the scenario's beta over the whole grid. A change-point equal
  to the horizon is run as two segments, the second on the one-point grid of the last
  day, and the result is the series of the base-beta run over the whole grid. Both
  return a series when the solver accepts the grids and N is not 0.
\<close>

theorem change_point_boundary:
  assumes "odeint_shape odeint" and "odeint_accepts odeint" and "N \<noteq> 0" and "0 < jours_total"
  shows "scenario_series odeint N gamma beta_base S0 I0 R0_init jours_total beta 0
           = simuler_sir odeint N beta gamma S0 I0 R0_init (np_arange 0 (jours_total + 1))
       \<and> (\<exists>S I R. scenario_series odeint N gamma beta_base S0 I0 R0_init jours_total beta 0
                     = Inr (S, I, R))
       \<and> (\<exists>S1 I1 R1.
            simuler_sir odeint N beta_base gamma S0 I0 R0_init (np_arange 0 (jours_total + 1))
              = Inr (S1, I1, R1)
          \<and> scenario_series odeint N gamma beta_base S0 I0 R0_init jours_total beta jours_total
              = Inr (S1, I1, R1))"
proof (intro conjI)
  show one: "scenario_series odeint N gamma beta_base S0 I0 R0_init jours_total beta 0
           = simuler_sir odeint N beta gamma S0 I0 R0_init (np_arange 0 (jours_total + 1))"
    by (rule scenario_series_single)
  have ne: "np_arange 0 (jours_total + 1) \<noteq> []"
    using assms(4) by (simp add: np_arange_empty_iff)
  from simuler_sir_returns [OF assms(2,3) ne np_arange_sorted]
  show "\<exists>S I R. scenario_series odeint N gamma beta_base S0 I0 R0_init jours_total beta 0
                     = Inr (S, I, R)"
    by (simp add: one)
  from simuler_sir_returns [OF assms(2,3) ne np_arange_sorted] obtain S1 I1 R1 where
    s1: "simuler_sir odeint N beta_base gamma S0 I0 R0_init (np_arange 0 (jours_total + 1))
           = Inr (S1, I1, R1)"
    by blast
  from simuler_sir_shape [OF assms(1) s1] ne have n1: "S1 \<noteq> []" "I1 \<noteq> []" "R1 \<noteq> []"
    by auto
  have "np_arange jours_total (jours_total + 1) \<noteq> []" "sorted (np_arange jours_total (jours_total + 1))"
    by (simp_all add: np_arange_single)
  from simuler_sir_returns [OF assms(2,3) this] obtain S2 I2 R2 where
    s2: "simuler_sir odeint N beta gamma (last S1) (last I1) (last R1)
           (np_arange jours_total (jours_total + 1)) = Inr (S2, I2, R2)"
    by blast
  from simuler_sir_shape [OF assms(1) s2] have
    "length S2 = 1" "length I2 = 1" "length R2 = 1"
    "hd S2 = last S1" "hd I2 = last I1" "hd R2 = last R1"
    by (simp_all add: np_arange_single)
  then have "S2 = [last S1]" "I2 = [last I1]" "R2 = [last R1]"
    using singleton_hd [of S2] singleton_hd [of I2] singleton_hd [of R2] by simp_all
  with n1 have j: "butlast S1 @ S2 = S1" "butlast I1 @ I2 = I1" "butlast R1 @ R2 = R1"
    by simp_all
  have nz: "jours_total \<noteq> 0" using assms(4) by simp
  from scenario_series_two_returns [OF nz s1 n1 s2] j s1
  show "\<exists>S1 I1 R1.
            simuler_sir odeint N beta_base gamma S0 I0 R0_init (np_arange 0 (jours_total + 1))
              = Inr (S1, I1, R1)
          \<and> scenario_series odeint N gamma beta_base S0 I0 R0_init jours_total beta jours_total
              = Inr (S1, I1, R1)"
    by simp
qed

theorem change_point_boundary_witness:
  "odeint_shape euler_odeint \<and> odeint_accepts euler_odeint \<and> (10000 :: real) \<noteq> 0 \<and> (0 :: int) < 2
   \<and> scenario_series euler_odeint 10000 (1/10) (1/2) 9990 10 0 2 (1/5) 0
       = simuler_sir euler_odeint 10000 (1/5) (1/10) 9990 10 0 (np_arange 0 (2 + 1))
   \<and> (\<exists>S1 I1 R1.
         simuler_sir euler_odeint 10000 (1/2) (1/10) 9990 10 0 (np_arange 0 (2 + 1)) = Inr (S1, I1, R1)
       \<and> scenario_series euler_odeint 10000 (1/10) (1/2) 9990 10 0 2 (1/5) 2 = Inr (S1, I1, R1))"
proof -
  have h: "(10000 :: real) \<noteq> 0" "(0 :: int) < 2" by simp_all
  from change_point_boundary [OF euler_odeint_shape euler_odeint_accepts h,
      of "1/10" "1/2" 9990 10 0 "1/5"]
    euler_odeint_shape euler_odeint_accepts
  show ?thesis by simp
qed

text \<open>
  C6, as stated: the integrator fails for \<open>N \<le> 0\<close>, \<open>gamma \<le> 0\<close> or \<open>beta < 0\<close>, and for
  a grid that is not strictly increasing. The code checks none of these: the constructor
  accepts negative N, beta and gamma, and both integrators return a series for them, on
  a grid with a repeated time (the numbers are those of the Euler solver).
\<close>

theorem no_validation_counterexample:
  "ModeleSIR_init (- 10000) (- (1/2)) (- (1/10)) 9990 10 0
     = Inr \<lparr> self_N = - 10000, self_beta = - (1/2), self_gamma = - (1/10), self_S0 = 9990,
             self_I0 = 10, self_R0_init = 0, self_R0 = 5 \<rparr>
   \<and> simuler euler_odeint
         \<lparr> self_N = - 10000, self_beta = - (1/2), self_gamma = - (1/10), self_S0 = 9990,
           self_I0 = 10, self_R0_init = 0, self_R0 = 5 \<rparr> [0, 0, 1]
     = Inr ([9990, 9990, 1997001 / 200], [10, 10, 3199 / 200], [0, 0, - 1])
   \<and> simuler_sir euler_odeint (- 10000) (- (1/2)) (- (1/10)) 9990 10 0 [0, 0, 1]
     = Inr ([9990, 9990, 1997001 / 200], [10, 10, 3199 / 200], [0, 0, - 1])"
  by (simp add: ModeleSIR_init_def simuler_def simuler_sir_def euler_odeint_def sir_equations_def
        equations_sir_def solution_T_def)

text \<open>
  C6, amended. The integrator validates nothing itself. \<open>simuler_sir\<close> and
  \<open>ModeleSIR.simuler\<close> each return the rows of the solver transposed when the solver
  returns rows, and the error of the solver unchanged when it fails. Each returns a
  series for every N other than 0 and every beta and gamma, of any sign, on every
  non-empty grid that never decreases, for a solver that accepts such grids. In both,
  parameters \<open>(- N, - beta)\<close> give the same result as \<open>(N, beta)\<close>. The constructor of
  \<open>ModeleSIR\<close> returns the model for every gamma other than 0 and fails only when
  gamma is 0, with ZeroDivisionError.
\<close>

theorem integrator_no_validation:
  "(odeint (\<lambda>y t. sir_equations y t N beta gamma) (S0, I0, R0) temps = Inr rows \<longrightarrow>
      simuler_sir odeint N beta gamma S0 I0 R0 temps = Inr (solution_T rows))
   \<and> (odeint (\<lambda>y t. sir_equations y t N beta gamma) (S0, I0, R0) temps = Inl e \<longrightarrow>
        simuler_sir odeint N beta gamma S0 I0 R0 temps = Inl e)
   \<and> (odeint (equations_sir m) (self_S0 m, self_I0 m, self_R0_init m) temps = Inr rows' \<longrightarrow>
        simuler odeint m temps = Inr (solution_T rows'))
   \<and> (odeint (equations_sir m) (self_S0 m, self_I0 m, self_R0_init m) temps = Inl e' \<longrightarrow>
        simuler odeint m temps = Inl e')
   \<and> (odeint_accepts odeint \<and> N \<noteq> 0 \<and> temps \<noteq> [] \<and> sorted temps \<longrightarrow>
        (\<exists>S I R. simuler_sir odeint N beta gamma S0 I0 R0 temps = Inr (S, I, R)))
   \<and> (odeint_accepts odeint \<and> self_N m \<noteq> 0 \<and> temps \<noteq> [] \<and> sorted temps \<longrightarrow>
        (\<exists>S I R. simuler odeint m temps = Inr (S, I, R)))
   \<and> simuler_sir odeint (- N) (- beta) gamma S0 I0 R0 temps
       = simuler_sir odeint N beta gamma S0 I0 R0 temps
   \<and> simuler odeint (m \<lparr> self_N := - self_N m, self_beta := - self_beta m \<rparr>) temps
       = simuler odeint m temps
   \<and> (gamma \<noteq> 0 \<longrightarrow>
        ModeleSIR_init N beta gamma S0 I0 R0
          = Inr \<lparr> self_N = N, self_beta = beta, self_gamma = gamma, self_S0 = S0,
                  self_I0 = I0, self_R0_init = R0, self_R0 = beta / gamma \<rparr>)
   \<and> (gamma = 0 \<longrightarrow> ModeleSIR_init N beta gamma S0 I0 R0 = Inl ZeroDivisionError)"
proof (intro conjI impI)
  assume "odeint (\<lambda>y t. sir_equations y t N beta gamma) (S0, I0, R0) temps = Inr rows"
  then show "simuler_sir odeint N beta gamma S0 I0 R0 temps = Inr (solution_T rows)"
    by (simp add: simuler_sir_def)
next
  assume "odeint (\<lambda>y t. sir_equations y t N beta gamma) (S0, I0, R0) temps = Inl e"
  then show "simuler_sir odeint N beta gamma S0 I0 R0 temps = Inl e"
    by (simp add: simuler_sir_def)
next
  assume "odeint (equations_sir m) (self_S0 m, self_I0 m, self_R0_init m) temps = Inr rows'"
  then show "simuler odeint m temps = Inr (solution_T rows')"
    by (simp add: simuler_def solution_T_def)
next
  assume "odeint (equations_sir m) (self_S0 m, self_I0 m, self_R0_init m) temps = Inl e'"
  then show "simuler odeint m temps = Inl e'"
    by (simp add: simuler_def)
next
  assume "odeint_accepts odeint \<and> N \<noteq> 0 \<and> temps \<noteq> [] \<and> sorted temps"
  then show "\<exists>S I R. simuler_sir odeint N beta gamma S0 I0 R0 temps = Inr (S, I, R)"
    using simuler_sir_returns [of odeint N temps beta gamma S0 I0 R0] by blast
next
  assume "odeint_accepts odeint \<and> self_N m \<noteq> 0 \<and> temps \<noteq> [] \<and> sorted temps"
  then show "\<exists>S I R. simuler odeint m temps = Inr (S, I, R)"
    using simuler_returns [of odeint m temps] by blast
next
  show "simuler_sir odeint (- N) (- beta) gamma S0 I0 R0 temps
       = simuler_sir odeint N beta gamma S0 I0 R0 temps"
    by (simp add: simuler_sir_def sir_equations_sign)
next
  have "equations_sir (m \<lparr> self_N := - self_N m, self_beta := - self_beta m \<rparr>) = equations_sir m"
    by (intro ext) (rule equations_sir_sign)
  then show "simuler odeint (m \<lparr> self_N := - self_N m, self_beta := - self_beta m \<rparr>) temps
       = simuler odeint m temps"
    by (simp add: simuler_def)
next
  assume "gamma \<noteq> 0"
  then show "ModeleSIR_init N beta gamma S0 I0 R0
          = Inr \<lparr> self_N = N, self_beta = beta, self_gamma = gamma, self_S0 = S0,
                  self_I0 = I0, self_R0_init = R0, self_R0 = beta / gamma \<rparr>"
    by (simp add: ModeleSIR_init_def)
next
  assume "gamma = 0"
  then show "ModeleSIR_init N beta gamma S0 I0 R0 = Inl ZeroDivisionError"
    by (simp add: ModeleSIR_init_def)
qed

theorem integrator_no_validation_witness:
  "odeint_accepts euler_odeint \<and> (- 10000 :: real) \<noteq> 0 \<and> [0, 0, 1 :: real] \<noteq> []
   \<and> sorted [0, 0, 1 :: real] \<and> (- (1/10) :: real) \<noteq> 0
   \<and> euler_odeint (\<lambda>y t. sir_equations y t (- 10000) (- (1/2)) (- (1/10))) (9990, 10, 0) [0, 0, 1]
       = Inr [(9990, 10, 0), (9990, 10, 0), (1997001 / 200, 3199 / 200, - 1)]
   \<and> simuler_sir euler_odeint (- 10000) (- (1/2)) (- (1/10)) 9990 10 0 [0, 0, 1]
       = Inr (solution_T [(9990, 10, 0), (9990, 10, 0), (1997001 / 200, 3199 / 200, - 1)])
   \<and> euler_odeint
         (equations_sir \<lparr> self_N = - 10000, self_beta = - (1/2), self_gamma = - (1/10),
                          self_S0 = 9990, self_I0 = 10, self_R0_init = 0, self_R0 = 5 \<rparr>)
         (9990, 10, 0) [0, 0, 1]
       = Inr [(9990, 10, 0), (9990, 10, 0), (1997001 / 200, 3199 / 200, - 1)]
   \<and> simuler euler_odeint
         \<lparr> self_N = - 10000, self_beta = - (1/2), self_gamma = - (1/10),
           self_S0 = 9990, self_I0 = 10, self_R0_init = 0, self_R0 = 5 \<rparr> [0, 0, 1]
       = Inr (solution_T [(9990, 10, 0), (9990, 10, 0), (1997001 / 200, 3199 / 200, - 1)])
   \<and> (\<exists>S I R. simuler_sir euler_odeint (- 10000) (- (1/2)) (- (1/10)) 9990 10 0 [0, 0, 1]
                  = Inr (S, I, R))
   \<and> (\<exists>S I R. simuler euler_odeint
                    \<lparr> self_N = - 10000, self_beta = - (1/2), self_gamma = - (1/10),
                      self_S0 = 9990, self_I0 = 10, self_R0_init = 0, self_R0 = 5 \<rparr> [0, 0, 1]
                  = Inr (S, I, R))
   \<and> euler_odeint (\<lambda>y t. sir_equations y t 10000 (1/2) (1/10)) (9990, 10, 0) [1, 0, 1]
       = Inl ValueError
   \<and> simuler_sir euler_odeint 10000 (1/2) (1/10) 9990 10 0 [1, 0, 1] = Inl ValueError
   \<and> euler_odeint
         (equations_sir \<lparr> self_N = 10000, self_beta = 1/2, self_gamma = 1/10,
                          self_S0 = 9990, self_I0 = 10, self_R0_init = 0, self_R0 = 5 \<rparr>)
         (9990, 10, 0) [1, 0, 1]
       = Inl ValueError
   \<and> simuler euler_odeint
         \<lparr> self_N = 10000, self_beta = 1/2, self_gamma = 1/10,
           self_S0 = 9990, self_I0 = 10, self_R0_init = 0, self_R0 = 5 \<rparr> [1, 0, 1]
       = Inl ValueError
   \<and> simuler_sir euler_odeint (- 10000) (- (1/2)) (1/10) 9990 10 0 [0, 1]
       = simuler_sir euler_odeint 10000 (1/2) (1/10) 9990 10 0 [0, 1]
   \<and> simuler euler_odeint
         \<lparr> self_N = - 10000, self_beta = - (1/2), self_gamma = 1/10,
           self_S0 = 9990, self_I0 = 10, self_R0_init = 0, self_R0 = 5 \<rparr> [0, 1]
       = simuler euler_odeint
         \<lparr> self_N = 10000, self_beta = 1/2, self_gamma = 1/10,
           self_S0 = 9990, self_I0 = 10, self_R0_init = 0, self_R0 = 5 \<rparr> [0, 1]
   \<and> ModeleSIR_init (- 10000) (- (1/2)) (- (1/10)) 9990 10 0
       = Inr \<lparr> self_N = - 10000, self_beta = - (1/2), self_gamma = - (1/10), self_S0 = 9990,
               self_I0 = 10, self_R0_init = 0, self_R0 = (- (1/2)) / (- (1/10)) \<rparr>
   \<and> ModeleSIR_init 10000 (1/2) 0 9990 10 0 = Inl ZeroDivisionError"
proof -
  let ?neg = "\<lparr> self_N = - 10000, self_beta = - (1/2), self_gamma = - (1/10),
                self_S0 = 9990, self_I0 = 10, self_R0_init = 0, self_R0 = 5 \<rparr>"
  let ?pos = "\<lparr> self_N = 10000, self_beta = 1/2, self_gamma = 1/10,
                self_S0 = 9990, self_I0 = 10, self_R0_init = 0, self_R0 = 5 \<rparr>"
  let ?rows = "[(9990, 10, 0), (9990, 10, 0), (1997001 / 200, 3199 / 200, - 1)] :: state list"
  have r1: "euler_odeint (\<lambda>y t. sir_equations y t (- 10000) (- (1/2)) (- (1/10))) (9990, 10, 0)
              [0, 0, 1] = Inr ?rows"
    by (simp add: euler_odeint_def sir_equations_def)
  have r2: "euler_odeint (equations_sir ?neg) (9990, 10, 0) [0, 0, 1] = Inr ?rows"
    by (simp add: euler_odeint_def equations_sir_def)
  have g1: "euler_odeint (\<lambda>y t. sir_equations y t 10000 (1/2) (1/10)) (9990, 10, 0) [1, 0, 1]
       = Inl ValueError"
    by (simp add: euler_odeint_def)
  have g2: "euler_odeint (equations_sir ?pos) (9990, 10, 0) [1, 0, 1] = Inl ValueError"
    by (simp add: euler_odeint_def)
  note a = integrator_no_validation [where odeint = euler_odeint and N = "- 10000"
      and beta = "- (1/2)" and gamma = "- (1/10)" and ?S0.0 = 9990 and ?I0.0 = 10 and ?R0.0 = 0
      and temps = "[0, 0, 1]" and rows = ?rows and rows' = ?rows and m = ?neg]
  from a r1 have ts: "simuler_sir euler_odeint (- 10000) (- (1/2)) (- (1/10)) 9990 10 0 [0, 0, 1]
       = Inr (solution_T ?rows)"
    by simp
  from a r2 have tm: "simuler euler_odeint ?neg [0, 0, 1] = Inr (solution_T ?rows)"
    by simp
  from a euler_odeint_accepts
  have xs: "\<exists>S I R. simuler_sir euler_odeint (- 10000) (- (1/2)) (- (1/10)) 9990 10 0 [0, 0, 1]
                  = Inr (S, I, R)"
    and xm: "\<exists>S I R. simuler euler_odeint ?neg [0, 0, 1] = Inr (S, I, R)"
    by simp_all
  from a have i: "ModeleSIR_init (- 10000) (- (1/2)) (- (1/10)) 9990 10 0
       = Inr \<lparr> self_N = - 10000, self_beta = - (1/2), self_gamma = - (1/10), self_S0 = 9990,
               self_I0 = 10, self_R0_init = 0, self_R0 = (- (1/2)) / (- (1/10)) \<rparr>"
    by simp
  note b = integrator_no_validation [where odeint = euler_odeint and N = 10000
      and beta = "1/2" and gamma = "1/10" and ?S0.0 = 9990 and ?I0.0 = 10 and ?R0.0 = 0
      and temps = "[1, 0, 1]" and e = ValueError and e' = ValueError and m = ?pos]
  from b g1 have es: "simuler_sir euler_odeint 10000 (1/2) (1/10) 9990 10 0 [1, 0, 1]
       = Inl ValueError"
    by simp
  from b g2 have em: "simuler euler_odeint ?pos [1, 0, 1] = Inl ValueError"
    by simp
  note c = integrator_no_validation [where odeint = euler_odeint and N = 10000
      and beta = "1/2" and gamma = "1/10" and ?S0.0 = 9990 and ?I0.0 = 10 and ?R0.0 = 0
      and temps = "[0, 1]" and m = ?pos]
  from c have ss: "simuler_sir euler_odeint (- 10000) (- (1/2)) (1/10) 9990 10 0 [0, 1]
       = simuler_sir euler_odeint 10000 (1/2) (1/10) 9990 10 0 [0, 1]"
    by simp
  from c have sm: "simuler euler_odeint
         \<lparr> self_N = - 10000, self_beta = - (1/2), self_gamma = 1/10,
           self_S0 = 9990, self_I0 = 10, self_R0_init = 0, self_R0 = 5 \<rparr> [0, 1]
       = simuler euler_odeint ?pos [0, 1]"
    by simp
  from integrator_no_validation [where N = 10000 and beta = "1/2" and gamma = 0
      and ?S0.0 = 9990 and ?I0.0 = 10 and ?R0.0 = 0]
  have z: "ModeleSIR_init 10000 (1/2) 0 9990 10 0 = Inl ZeroDivisionError"
    by simp
  from r1 r2 g1 g2 ts tm xs xm es em ss sm i z euler_odeint_accepts show ?thesis
    by simp
qed

text \<open>
  C7, as stated: R0 always equals \<open>beta / gamma\<close> and is never a stored attribute that
  can diverge. The constructor stores it in the attribute \<open>self.R0\<close>; after an
  assignment \<open>modele.beta = 0.2\<close> the attribute still holds 5 while \<open>beta / gamma\<close> is 2.
\<close>

theorem R0_stored_counterexample:
  "ModeleSIR_init 10000 (1/2) (1/10) 9990 10 0
     = Inr \<lparr> self_N = 10000, self_beta = 1/2, self_gamma = 1/10, self_S0 = 9990,
             self_I0 = 10, self_R0_init = 0, self_R0 = 5 \<rparr>
   \<and> self_R0 (\<lparr> self_N = 10000, self_beta = 1/2, self_gamma = 1/10, self_S0 = 9990,
                  self_I0 = 10, self_R0_init = 0, self_R0 = 5 \<rparr> \<lparr> self_beta := 1/5 \<rparr>) = 5
   \<and> self_beta (\<lparr> self_N = 10000, self_beta = 1/2, self_gamma = 1/10, self_S0 = 9990,
                  self_I0 = 10, self_R0_init = 0, self_R0 = 5 \<rparr> \<lparr> self_beta := 1/5 \<rparr>)
       / self_gamma (\<lparr> self_N = 10000, self_beta = 1/2, self_gamma = 1/10, self_S0 = 9990,
                  self_I0 = 10, self_R0_init = 0, self_R0 = 5 \<rparr> \<lparr> self_beta := 1/5 \<rparr>) = 2"
  by (simp add: ModeleSIR_init_def)

text \<open>
  C7, amended. R0 is computed once, by the constructor, as \<open>beta / gamma\<close> and stored:
  every model the constructor returns has \<open>R0 = beta / gamma\<close> (and gamma is not 0). An
  assignment to beta or gamma afterwards leaves the stored R0 as it was.
\<close>

theorem R0_set_by_init:
  assumes "ModeleSIR_init N beta gamma S0 I0 R0 = Inr m"
  shows "gamma \<noteq> 0 \<and> self_beta m = beta \<and> self_gamma m = gamma
       \<and> self_R0 m = self_beta m / self_gamma m
       \<and> self_R0 (m \<lparr> self_beta := b \<rparr>) = self_R0 m
       \<and> self_R0 (m \<lparr> self_gamma := g \<rparr>) = self_R0 m"
  using assms by (auto simp: ModeleSIR_init_def split: if_splits)

theorem R0_set_by_init_witness:
  "ModeleSIR_init 10000 (1/2) (1/10) 9990 10 0
     = Inr \<lparr> self_N = 10000, self_beta = 1/2, self_gamma = 1/10, self_S0 = 9990,
             self_I0 = 10, self_R0_init = 0, self_R0 = 5 \<rparr>
   \<and> self_R0 \<lparr> self_N = 10000, self_beta = 1/2, self_gamma = 1/10, self_S0 = 9990,
                 self_I0 = 10, self_R0_init = 0, self_R0 = 5 \<rparr> = (1/2) / (1/10)"
proof -
  have i: "ModeleSIR_init 10000 (1/2) (1/10) 9990 10 0
     = Inr \<lparr> self_N = 10000, self_beta = 1/2, self_gamma = 1/10, self_S0 = 9990,
             self_I0 = 10, self_R0_init = 0, self_R0 = 5 \<rparr>"
    by (simp add: ModeleSIR_init_def)
  from R0_set_by_init [OF i] i show ?thesis by simp
qed

text \<open>
  C9. The output of the integrator has one sampled state per grid point: each of the
  arrays S, I, R that \<open>simuler_sir\<close> (and the method \<open>simuler\<close>) returns has the
  length of the time grid, for a solver that returns one row per requested time. On a
  non-empty grid that never decreases, with N not 0, such a result is returned.
\<close>

theorem simuler_sir_output_length:
  assumes "odeint_shape odeint"
  shows "(simuler_sir odeint N beta gamma S0 I0 R0 temps = Inr (S, I, R) \<longrightarrow>
            length S = length temps \<and> length I = length temps \<and> length R = length temps)
       \<and> (simuler odeint m temps = Inr (S, I, R) \<longrightarrow>
            length S = length temps \<and> length I = length temps \<and> length R = length temps)
       \<and> (odeint_accepts odeint \<and> N \<noteq> 0 \<and> temps \<noteq> [] \<and> sorted temps \<longrightarrow>
            (\<exists>S' I' R'. simuler_sir odeint N beta gamma S0 I0 R0 temps = Inr (S', I', R')
               \<and> length S' = length temps \<and> length I' = length temps \<and> length R' = length temps))
       \<and> (odeint_accepts odeint \<and> self_N m \<noteq> 0 \<and> temps \<noteq> [] \<and> sorted temps \<longrightarrow>
            (\<exists>S' I' R'. simuler odeint m temps = Inr (S', I', R')
               \<and> length S' = length temps \<and> length I' = length temps \<and> length R' = length temps))"
proof (intro conjI impI)
  assume "simuler_sir odeint N beta gamma S0 I0 R0 temps = Inr (S, I, R)"
  from simuler_sir_shape [OF assms this]
  show "length S = length temps" "length I = length temps" "length R = length temps" by simp_all
next
  assume "simuler odeint m temps = Inr (S, I, R)"
  from simuler_shape [OF assms this]
  show "length S = length temps" "length I = length temps" "length R = length temps" by simp_all
next
  assume a: "odeint_accepts odeint \<and> N \<noteq> 0 \<and> temps \<noteq> [] \<and> sorted temps"
  then obtain S' I' R' where r: "simuler_sir odeint N beta gamma S0 I0 R0 temps = Inr (S', I', R')"
    using simuler_sir_returns [of odeint N temps beta gamma S0 I0 R0] by blast
  from simuler_sir_shape [OF assms r] r
  show "\<exists>S' I' R'. simuler_sir odeint N beta gamma S0 I0 R0 temps = Inr (S', I', R')
          \<and> length S' = length temps \<and> length I' = length temps \<and> length R' = length temps"
    by simp
next
  assume a: "odeint_accepts odeint \<and> self_N m \<noteq> 0 \<and> temps \<noteq> [] \<and> sorted temps"
  then obtain S' I' R' where r: "simuler odeint m temps = Inr (S', I', R')"
    using simuler_returns [of odeint m temps] by blast
  from simuler_shape [OF assms r] r
  show "\<exists>S' I' R'. simuler odeint m temps = Inr (S', I', R')
          \<and> length S' = length temps \<and> length I' = length temps \<and> length R' = length temps"
    by simp
qed

theorem simuler_sir_output_length_witness:
  "odeint_shape euler_odeint \<and> odeint_accepts euler_odeint
   \<and> (10000::real) \<noteq> 0 \<and> [0, 1::real] \<noteq> [] \<and> sorted [0, 1::real]
   \<and> simuler_sir euler_odeint 10000 (1/2) (1/10) 9990 10 0 [0, 1]
       = Inr ([9990, 1997001 / 200], [10, 2799 / 200], [0, 1])
   \<and> simuler euler_odeint
         \<lparr> self_N = 10000, self_beta = 1/2, self_gamma = 1/10, self_S0 = 9990,
           self_I0 = 10, self_R0_init = 0, self_R0 = 5 \<rparr> [0, 1]
       = Inr ([9990, 1997001 / 200], [10, 2799 / 200], [0, 1])
   \<and> length [9990, 1997001 / 200 :: real] = length [0, 1::real]
   \<and> length [10, 2799 / 200 :: real] = length [0, 1::real]
   \<and> length [0, 1::real] = length [0, 1::real]"
proof -
  let ?m = "\<lparr> self_N = 10000, self_beta = 1/2, self_gamma = 1/10, self_S0 = 9990,
              self_I0 = 10, self_R0_init = 0, self_R0 = 5 \<rparr>"
  have r1: "simuler_sir euler_odeint 10000 (1/2) (1/10) 9990 10 0 [0, 1]
       = Inr ([9990, 1997001 / 200], [10, 2799 / 200], [0, 1])"
    by (simp add: simuler_sir_def euler_odeint_def sir_equations_def solution_T_def)
  have r2: "simuler euler_odeint ?m [0, 1]
       = Inr ([9990, 1997001 / 200], [10, 2799 / 200], [0, 1])"
    by (simp add: simuler_def euler_odeint_def equations_sir_def solution_T_def)
  from simuler_sir_output_length [OF euler_odeint_shape, where N = 10000 and beta = "1/2"
      and gamma = "1/10" and ?S0.0 = 9990 and ?I0.0 = 10 and ?R0.0 = 0 and temps = "[0, 1]"
      and S = "[9990, 1997001 / 200]" and I = "[10, 2799 / 200]" and R = "[0, 1]" and m = ?m]
    r1 r2 euler_odeint_shape euler_odeint_accepts
  show ?thesis by simp
qed

text \<open>
  C10. In the comparison of intervention scenarios, a scenario with no intervention day
  (day 0) or with an intervention day strictly between 0 and \<open>jours_total\<close> yields
  series S, I, R of length \<open>jours_total + 1\<close> each, the length of the shared axis
  \<open>np.arange(0, jours_total + 1)\<close> of the days 0 to \<open>jours_total\<close>; and the series are
  produced when the solver accepts the grids and N is not 0.
\<close>

theorem scenario_series_aligned:
  assumes "odeint_shape odeint"
    and "jour_intervention = 0 \<or> (0 < jour_intervention \<and> jour_intervention < jours_total)"
  shows "(scenario_series odeint N gamma beta_base S0 I0 R0_init jours_total beta jour_intervention
            = Inr (S, I, R) \<longrightarrow>
            length S = nat (jours_total + 1) \<and> length I = nat (jours_total + 1)
          \<and> length R = nat (jours_total + 1)
          \<and> length (np_arange 0 (jours_total + 1)) = nat (jours_total + 1))
       \<and> (odeint_accepts odeint \<and> N \<noteq> 0 \<and> 0 \<le> jours_total \<longrightarrow>
            (\<exists>S' I' R'.
               scenario_series odeint N gamma beta_base S0 I0 R0_init jours_total beta jour_intervention
                 = Inr (S', I', R')))"
proof (intro conjI impI)
  assume r: "scenario_series odeint N gamma beta_base S0 I0 R0_init jours_total beta jour_intervention
            = Inr (S, I, R)"
  have "length S = nat (jours_total + 1) \<and> length I = nat (jours_total + 1)
          \<and> length R = nat (jours_total + 1)"
  proof (cases "jour_intervention = 0")
    case True
    with r have "simuler_sir odeint N beta gamma S0 I0 R0_init (np_arange 0 (jours_total + 1))
                   = Inr (S, I, R)"
      by (simp add: scenario_series_single)
    from simuler_sir_shape [OF assms(1) this] show ?thesis
      by (simp add: length_np_arange)
  next
    case False
    with assms(2) have d: "0 < jour_intervention" "jour_intervention < jours_total" by auto
    from scenario_series_two [OF False r] obtain S1 I1 R1 S2 I2 R2 where
      s1: "simuler_sir odeint N beta_base gamma S0 I0 R0_init (np_arange 0 (jour_intervention + 1))
             = Inr (S1, I1, R1)"
      and s2: "simuler_sir odeint N beta gamma (last S1) (last I1) (last R1)
               (np_arange jour_intervention (jours_total + 1)) = Inr (S2, I2, R2)"
      and c: "S = butlast S1 @ S2" "I = butlast I1 @ I2" "R = butlast R1 @ R2"
      by blast
    from simuler_sir_shape [OF assms(1) s1] have l1:
      "length S1 = nat (jour_intervention + 1)" "length I1 = nat (jour_intervention + 1)"
      "length R1 = nat (jour_intervention + 1)"
      by (simp_all add: length_np_arange)
    from simuler_sir_shape [OF assms(1) s2] have l2:
      "length S2 = nat (jours_total + 1 - jour_intervention)"
      "length I2 = nat (jours_total + 1 - jour_intervention)"
      "length R2 = nat (jours_total + 1 - jour_intervention)"
      by (simp_all add: length_np_arange)
    from d have "nat (jour_intervention + 1) - 1 + nat (jours_total + 1 - jour_intervention)
                   = nat (jours_total + 1)"
      by linarith
    with c l1 l2 show ?thesis by simp
  qed
  then show "length S = nat (jours_total + 1)" "length I = nat (jours_total + 1)"
    "length R = nat (jours_total + 1)" by simp_all
next
  show "length (np_arange 0 (jours_total + 1)) = nat (jours_total + 1)"
    by (simp add: length_np_arange)
next
  assume a: "odeint_accepts odeint \<and> N \<noteq> 0 \<and> 0 \<le> jours_total"
  with assms(2) have "(jour_intervention = 0 \<and> 0 \<le> jours_total)
         \<or> (0 < jour_intervention \<and> jour_intervention \<le> jours_total)"
    by auto
  with a show "\<exists>S' I' R'.
          scenario_series odeint N gamma beta_base S0 I0 R0_init jours_total beta jour_intervention
            = Inr (S', I', R')"
    using scenario_series_returns [OF assms(1), of N jour_intervention jours_total] by blast
qed

theorem scenario_series_aligned_witness:
  "odeint_shape euler_odeint \<and> odeint_accepts euler_odeint
   \<and> (0::int) < 1 \<and> (1::int) < 2 \<and> (10000::real) \<noteq> 0 \<and> (0::int) \<le> 2
   \<and> scenario_series euler_odeint 10000 (1/10) (1/2) 9990 10 0 2 (1/5) 1
       = Inr ([9990, 1997001 / 200, 19964420394201 / 2000000000],
              [10, 2799 / 200, 30780605799 / 2000000000], [0, 1, 4799 / 2000])
   \<and> length [9990, 1997001 / 200, 19964420394201 / 2000000000 :: real] = nat (2 + 1)
   \<and> length [10, 2799 / 200, 30780605799 / 2000000000 :: real] = nat (2 + 1)
   \<and> length [0, 1, 4799 / 2000 :: real] = nat (2 + 1)
   \<and> length (np_arange 0 (2 + 1)) = nat (2 + 1)"
proof -
  have r: "scenario_series euler_odeint 10000 (1/10) (1/2) 9990 10 0 2 (1/5) 1
       = Inr ([9990, 1997001 / 200, 19964420394201 / 2000000000],
              [10, 2799 / 200, 30780605799 / 2000000000], [0, 1, 4799 / 2000])"
    by (simp add: scenario_series_def simuler_sir_def euler_odeint_def sir_equations_def
        solution_T_def np_arange_def upto_rec1 py_last_def)
  have d: "(1::int) = 0 \<or> (0 < (1::int) \<and> (1::int) < 2)" by simp
  from scenario_series_aligned [OF euler_odeint_shape d, where N = 10000 and gamma = "1/10"
      and beta_base = "1/2" and ?S0.0 = 9990 and ?I0.0 = 10 and R0_init = 0 and beta = "1/5"
      and S = "[9990, 1997001 / 200, 19964420394201 / 2000000000]"
      and I = "[10, 2799 / 200, 30780605799 / 2000000000]" and R = "[0, 1, 4799 / 2000]"]
    r euler_odeint_shape euler_odeint_accepts
  show ?thesis by simp
qed

end
